theory Spec2Isabelle
  imports Main "HOL-Library.Sublist"
begin

section \<open>The Linux runner of bizsync: \<open>linux/runner/my_application.cc\<close>\<close>

text \<open>
  The runner is glue between the C library, GLib/GTK and the Flutter engine. Its own
  logic is embedded here function by function; every call that leaves the file is either
  a C library function with a fixed meaning (\<open>getenv\<close>, \<open>setenv\<close>, \<open>strcmp\<close>,
  \<open>strstr\<close>, \<open>g_strcmp0\<close>, \<open>g_strdupv\<close>, \<open>g_strfreev\<close>), modelled below, or a
  toolkit call, recorded as an event of the trace in the order in which the code makes it.
  What the toolkit answers (the default display, the screen of the window, the outcome
  of the registration) is an input of the model.

  A C string is the list of its bytes before the terminating NUL, so \<open>NULL\<close> versus a
  string is \<open>None\<close> versus \<open>Some s\<close>.
\<close>

subsection \<open>C library\<close>

type_synonym environment = "string \<rightharpoonup> string"

text \<open>\<open>getenv(name)\<close>: the value of the variable, or \<open>NULL\<close> when it is not set.\<close>

definition getenv :: "string \<Rightarrow> environment \<Rightarrow> string option" where
  "getenv name e = e name"

text \<open>
  \<open>setenv(name, value, overwrite)\<close>: adds the variable; an existing one is changed only
  when \<open>overwrite\<close> is nonzero. A name that is empty or contains \<open>=\<close> is refused
  (\<open>EINVAL\<close>) and the environment stays as it is. The runner ignores the return value,
  so only the environment is returned.
\<close>

definition setenv :: "string \<Rightarrow> string \<Rightarrow> int \<Rightarrow> environment \<Rightarrow> environment" where
  "setenv name val overwrite e =
     (if name = [] \<or> CHR ''='' \<in> set name then e
      else if overwrite = 0 \<and> e name \<noteq> None then e
      else e(name \<mapsto> val))"

text \<open>
  \<open>strcmp\<close>: bytes are compared as unsigned values; only the sign of the result is
  specified, so the model returns \<open>-1\<close>, \<open>0\<close> or \<open>1\<close>.
\<close>

fun strcmp :: "string \<Rightarrow> string \<Rightarrow> int" where
  "strcmp [] [] = 0"
| "strcmp [] (y # ys) = -1"
| "strcmp (x # xs) [] = 1"
| "strcmp (x # xs) (y # ys) =
     (if x = y then strcmp xs ys
      else if (of_char x :: nat) < of_char y then -1 else 1)"

text \<open>
  \<open>strstr(haystack, needle)\<close>: a pointer to the first occurrence of \<open>needle\<close>, that is
  the rest of \<open>haystack\<close> from there on, or \<open>NULL\<close> when there is none.
\<close>

fun strstr :: "string \<Rightarrow> string \<Rightarrow> string option" where
  "strstr [] needle = (if needle = [] then Some [] else None)"
| "strstr (h # hs) needle =
     (if prefix needle (h # hs) then Some (h # hs) else strstr hs needle)"

subsection \<open>Detecting Mesa software rendering\<close>

definition is_mesa_software_rendering :: "environment \<Rightarrow> bool" where
  "is_mesa_software_rendering e =
     (let renderer = getenv ''LIBGL_ALWAYS_SOFTWARE'' e in
      if renderer \<noteq> None \<and> strcmp (the renderer) ''1'' = 0 then True
      else
        let gl_renderer = getenv ''GL_RENDERER'' e in
        if gl_renderer \<noteq> None \<and>
           (strstr (the gl_renderer) ''llvmpipe'' \<noteq> None \<or>
            strstr (the gl_renderer) ''softpipe'' \<noteq> None \<or>
            strstr (the gl_renderer) ''swrast'' \<noteq> None)
        then True
        else False)"

subsection \<open>Process state, toolkit calls and what the toolkit answers\<close>

text \<open>
  \<open>struct _MyApplication\<close>: the only field of its own is the pointer to the vector of
  entrypoint arguments. A pointer is an index into the heap of string vectors, \<open>NULL\<close>
  is \<open>None\<close>.
\<close>

record MyApplication =
  dart_entrypoint_arguments :: "nat option"

datatype widget = Window | Header_bar | View

text \<open>The calls with an effect outside the file, in the order they are made.\<close>

datatype event =
    Setenv string string int
  | G_print string
  | G_warning string
  | G_strfreev nat
  | G_application_register
  | G_application_activate
  | Parent_startup
  | Parent_shutdown
  | Parent_dispose
  | Gtk_application_window_new
  | Gtk_window_set_resizable bool
  | Gtk_window_set_decorated bool
  | Gtk_window_set_type_hint_normal
  | Gtk_widget_set_app_paintable widget bool
  | Gtk_header_bar_new
  | Gtk_widget_show widget
  | Gtk_header_bar_set_title string
  | Gtk_header_bar_set_show_close_button bool
  | Gtk_window_set_titlebar widget
  | Gtk_window_set_title string
  | Gtk_window_set_default_size int int
  | Gtk_widget_set_size_request widget int int
  | Fl_dart_project_new
  | Fl_dart_project_set_dart_entrypoint_arguments "nat option"
  | Fl_view_new
  | Gtk_widget_set_can_focus widget bool
  | Gtk_widget_set_receives_default widget bool
  | Gtk_widget_set_visual widget nat
  | Gtk_container_add widget widget
  | Fl_register_plugins widget
  | Gtk_widget_grab_focus widget

text \<open>
  The heap holds the string vectors made by \<open>g_strdupv\<close>: cell \<open>p\<close> is \<open>Some v\<close> while
  the vector at address \<open>p\<close> is allocated and \<open>None\<close> once it has been freed.
\<close>

record state =
  environ :: environment
  heap :: "string list option list"
  self :: MyApplication
  trace :: "event list"

datatype error = Out_of_bounds_read | Invalid_free

text \<open>
  The two preprocessor symbols of the GDK headers the file tests with \<open>#ifdef\<close>.
\<close>

record build =
  GDK_WINDOWING_X11 :: bool
  GDK_WINDOWING_WAYLAND :: bool

datatype GdkDisplay = X11_display | Wayland_display | Other_display

text \<open>
  A screen is an X11 screen, which has a window-manager name (a string or \<open>NULL\<close>), or
  a screen of another backend.
\<close>

datatype GdkScreen = X11_screen "string option" | Other_screen

text \<open>
  What GDK answers when asked: \<open>gdk_display_get_default()\<close>, the screen of the new
  window, and \<open>gdk_screen_get_system_visual\<close> of that screen.
\<close>

record desktop =
  default_display :: "GdkDisplay option"
  window_screen :: GdkScreen
  system_visual :: "nat option"

definition gdk_display_get_default :: "desktop \<Rightarrow> GdkDisplay option" where
  "gdk_display_get_default d = default_display d"

text \<open>The type-check macros answer false on \<open>NULL\<close>.\<close>

definition GDK_IS_X11_DISPLAY :: "GdkDisplay option \<Rightarrow> bool" where
  "GDK_IS_X11_DISPLAY display = (display = Some X11_display)"

definition GDK_IS_WAYLAND_DISPLAY :: "GdkDisplay option \<Rightarrow> bool" where
  "GDK_IS_WAYLAND_DISPLAY display = (display = Some Wayland_display)"

fun GDK_IS_X11_SCREEN :: "GdkScreen \<Rightarrow> bool" where
  "GDK_IS_X11_SCREEN (X11_screen _) = True"
| "GDK_IS_X11_SCREEN Other_screen = False"

fun gdk_x11_screen_get_window_manager_name :: "GdkScreen \<Rightarrow> string option" where
  "gdk_x11_screen_get_window_manager_name (X11_screen name) = name"
| "gdk_x11_screen_get_window_manager_name Other_screen = None"

text \<open>\<open>g_strcmp0\<close>: \<open>strcmp\<close> that accepts \<open>NULL\<close>, which sorts before every string.\<close>

fun g_strcmp0 :: "string option \<Rightarrow> string option \<Rightarrow> int" where
  "g_strcmp0 None None = 0"
| "g_strcmp0 None (Some b) = -1"
| "g_strcmp0 (Some a) None = 1"
| "g_strcmp0 (Some a) (Some b) = strcmp a b"

definition emit :: "event \<Rightarrow> state \<Rightarrow> state" where
  "emit ev s = s\<lparr>trace := trace s @ [ev]\<rparr>"

text \<open>A call of \<open>setenv\<close> by the process: the environment changes and the call is recorded.\<close>

definition call_setenv :: "string \<Rightarrow> string \<Rightarrow> int \<Rightarrow> state \<Rightarrow> state" where
  "call_setenv name val overwrite s =
     emit (Setenv name val overwrite) (s\<lparr>environ := setenv name val overwrite (environ s)\<rparr>)"

definition g_print :: "string \<Rightarrow> state \<Rightarrow> state" where
  "g_print msg s = emit (G_print msg) s"

text \<open>
  \<open>g_strdupv\<close>: \<open>NULL\<close> for \<open>NULL\<close>, otherwise a copy of the vector at a new address.
\<close>

fun g_strdupv :: "string list option \<Rightarrow> state \<Rightarrow> nat option \<times> state" where
  "g_strdupv None s = (None, s)"
| "g_strdupv (Some v) s = (Some (length (heap s)), s\<lparr>heap := heap s @ [Some v]\<rparr>)"

text \<open>
  \<open>g_strfreev\<close>: nothing for \<open>NULL\<close>; an allocated vector is released; releasing an
  address that holds no allocated vector is an error of the program.
\<close>

fun g_strfreev :: "nat option \<Rightarrow> state \<Rightarrow> error + state" where
  "g_strfreev None s = Inr s"
| "g_strfreev (Some p) s =
     (if p < length (heap s) \<and> heap s ! p \<noteq> None
      then Inr (emit (G_strfreev p) (s\<lparr>heap := (heap s)[p := None]\<rparr>))
      else Inl Invalid_free)"

text \<open>
  \<open>v + n\<close> for a \<open>NULL\<close>-terminated vector \<open>v\<close>, read as a vector again: the vector of
  \<open>k\<close> strings has \<open>k + 1\<close> slots, so a start beyond the terminator reads out of bounds.
\<close>

definition vector_from :: "string list \<Rightarrow> nat \<Rightarrow> error + string list" where
  "vector_from v n = (if n \<le> length v then Inr (drop n v) else Inl Out_of_bounds_read)"

subsection \<open>Configuring the environment for Mesa software rendering\<close>

definition configure_mesa_rendering :: "build \<Rightarrow> desktop \<Rightarrow> state \<Rightarrow> state" where
  "configure_mesa_rendering b d s =
     (if is_mesa_software_rendering (environ s) then
        let s = call_setenv ''vblank_mode'' ''0'' 1 s;
            s = call_setenv ''LIBGL_DRI3_DISABLE'' ''1'' 1 s;
            s = call_setenv ''CLUTTER_PAINT'' ''disable-clipped-redraws:disable-culling'' 1 s;
            s = call_setenv ''MESA_GLSL_CACHE_DISABLE'' ''1'' 1 s;
            s = call_setenv ''MESA_SHADER_CACHE_DISABLE'' ''1'' 1 s;
            s = call_setenv ''mesa_glthread'' ''false'' 1 s;
            s = call_setenv ''MESA_NO_MEMOBJ_CACHE'' ''1'' 1 s;
            s = call_setenv ''MESA_DEBUG'' ''flush'' 1 s;
            s = call_setenv ''force_s3tc_enable'' ''false'' 1 s;
            s = call_setenv ''MESA_EXTENSION_OVERRIDE''
                  ''-GL_ARB_buffer_storage -GL_EXT_buffer_storage'' 1 s;
            s = call_setenv ''LP_NUM_THREADS'' ''1'' 1 s;
            s = call_setenv ''MESA_FBO_CACHE'' ''0'' 1 s;
            gdk_backend = getenv ''GDK_BACKEND'' (environ s);
            s = (if gdk_backend = None \<or> strcmp (the gdk_backend) ''wayland'' = 0 then
                   let display = gdk_display_get_default d in
                   if display \<noteq> None then
                     (if GDK_WINDOWING_X11 b then
                        (if GDK_IS_X11_DISPLAY display
                         then call_setenv ''GDK_BACKEND'' ''x11'' 1 s else s)
                      else s)
                   else s
                 else s);
            s = g_print (''BizSync: Mesa software rendering detected, applying comprehensive workarounds'' @ [CHR 0x0A]) s;
            s = g_print (''  - Disabled vsync (vblank_mode=0)'' @ [CHR 0x0A]) s;
            s = g_print (''  - Disabled DRI3 (LIBGL_DRI3_DISABLE=1)'' @ [CHR 0x0A]) s;
            s = g_print (''  - Disabled GLSL cache'' @ [CHR 0x0A]) s;
            s = g_print (''  - Single-threaded rendering (LP_NUM_THREADS=1)'' @ [CHR 0x0A]) s;
            s = g_print (''  - Synchronous flushing enabled'' @ [CHR 0x0A]) s
        in s
      else s)"

subsection \<open>\<open>GApplication::activate\<close>\<close>

definition my_application_activate :: "build \<Rightarrow> desktop \<Rightarrow> state \<Rightarrow> state" where
  "my_application_activate b d s =
     (let s = emit Gtk_application_window_new s;
          s = emit (Gtk_window_set_resizable True) s;
          s = emit (Gtk_window_set_decorated True) s;
          display = gdk_display_get_default d;
          use_header_bar = True;
          is_wayland = False;
          on_wayland = (GDK_WINDOWING_WAYLAND b \<and> GDK_IS_WAYLAND_DISPLAY display);
          is_wayland = (if on_wayland then True else is_wayland);
          use_header_bar = (if on_wayland then True else use_header_bar);
          s = (if on_wayland
               then emit (Gtk_widget_set_app_paintable Window True)
                      (emit Gtk_window_set_type_hint_normal s)
               else s);
          use_header_bar =
            (if GDK_WINDOWING_X11 b then
               (if GDK_IS_X11_DISPLAY display then
                  let screen = window_screen d in
                  if GDK_IS_X11_SCREEN screen then
                    let wm_name = gdk_x11_screen_get_window_manager_name screen in
                    if g_strcmp0 wm_name (Some ''GNOME Shell'') \<noteq> 0 then False
                    else use_header_bar
                  else use_header_bar
                else use_header_bar)
             else use_header_bar);
          s = (if use_header_bar then
                 let s = emit Gtk_header_bar_new s;
                     s = emit (Gtk_widget_show Header_bar) s;
                     s = emit (Gtk_header_bar_set_title ''bizsync'') s;
                     s = emit (Gtk_header_bar_set_show_close_button True) s
                 in emit (Gtk_window_set_titlebar Header_bar) s
               else emit (Gtk_window_set_title ''bizsync'') s);
          s = emit (Gtk_window_set_default_size 1280 720) s;
          s = (if GDK_WINDOWING_WAYLAND b \<and> is_wayland
               then emit (Gtk_widget_set_size_request Window 800 600) s else s);
          s = emit (Gtk_widget_show Window) s;
          s = emit Fl_dart_project_new s;
          s = emit (Fl_dart_project_set_dart_entrypoint_arguments
                      (dart_entrypoint_arguments (self s))) s;
          s = emit Fl_view_new s;
          s = (if GDK_WINDOWING_WAYLAND b \<and> is_wayland then
                 let s = emit (Gtk_widget_set_can_focus View True) s;
                     s = emit (Gtk_widget_set_receives_default View True) s
                 in emit (Gtk_widget_set_app_paintable View True) s
               else s);
          s = (if is_mesa_software_rendering (environ s) then
                 let s = emit (Gtk_widget_set_app_paintable View False) s in
                 (case system_visual d of
                    Some visual \<Rightarrow>
                      emit (Gtk_widget_set_visual View visual)
                        (emit (Gtk_widget_set_visual Window visual) s)
                  | None \<Rightarrow> s)
               else s);
          s = emit (Gtk_widget_show View) s;
          s = emit (Gtk_container_add Window View) s;
          s = emit (Fl_register_plugins View) s
      in emit (Gtk_widget_grab_focus View) s)"

subsection \<open>\<open>GApplication::local_command_line\<close>\<close>

text \<open>
  What \<open>g_application_register\<close> answers: success, or failure with the message of the
  \<open>GError\<close> it sets.
\<close>

datatype registration = Registered | Register_failed string

text \<open>
  The handler gets the argument vector \<open>*arguments\<close> and returns its \<open>gboolean\<close> result
  and the value it stores in \<open>*exit_status\<close>, with the new state.
\<close>

definition my_application_local_command_line ::
    "registration \<Rightarrow> string list \<Rightarrow> state \<Rightarrow> error + (bool \<times> int \<times> state)" where
  "my_application_local_command_line reg arguments s =
     (case vector_from arguments 1 of
        Inl e \<Rightarrow> Inl e
      | Inr rest \<Rightarrow>
          let (p, s) = g_strdupv (Some rest) s;
              s = s\<lparr>self := (self s)\<lparr>dart_entrypoint_arguments := p\<rparr>\<rparr>;
              s = emit G_application_register s
          in (case reg of
                Register_failed message \<Rightarrow>
                  let s = emit (G_warning (''Failed to register: '' @ message)) s
                  in Inr (True, 1, s)
              | Registered \<Rightarrow>
                  let s = emit G_application_activate s
                  in Inr (True, 0, s)))"

subsection \<open>\<open>GApplication::startup\<close>, \<open>GApplication::shutdown\<close>, \<open>GObject::dispose\<close>\<close>

definition my_application_startup :: "build \<Rightarrow> desktop \<Rightarrow> state \<Rightarrow> state" where
  "my_application_startup b d s =
     (let s = configure_mesa_rendering b d s
      in emit Parent_startup s)"

definition my_application_shutdown :: "state \<Rightarrow> state" where
  "my_application_shutdown s = emit Parent_shutdown s"

text \<open>
  \<open>g_clear_pointer(&p, destroy)\<close>: when \<open>p\<close> is not \<open>NULL\<close>, \<open>p\<close> is set to \<open>NULL\<close>
  and then \<open>destroy\<close> is called on the old value.
\<close>

definition my_application_dispose :: "state \<Rightarrow> error + state" where
  "my_application_dispose s =
     (let p = dart_entrypoint_arguments (self s);
          cleared =
            (if p \<noteq> None
             then g_strfreev p (s\<lparr>self := (self s)\<lparr>dart_entrypoint_arguments := None\<rparr>\<rparr>)
             else Inr s)
      in case cleared of
           Inl e \<Rightarrow> Inl e
         | Inr s \<Rightarrow> Inr (emit Parent_dispose s))"

subsection \<open>Vocabulary of the properties\<close>

text \<open>
  The twelve variables the configurator sets when it triggers, with their values, in the
  order of the calls.
\<close>

definition workaround_variables :: "(string \<times> string) list" where
  "workaround_variables =
     [(''vblank_mode'', ''0''),
      (''LIBGL_DRI3_DISABLE'', ''1''),
      (''CLUTTER_PAINT'', ''disable-clipped-redraws:disable-culling''),
      (''MESA_GLSL_CACHE_DISABLE'', ''1''),
      (''MESA_SHADER_CACHE_DISABLE'', ''1''),
      (''mesa_glthread'', ''false''),
      (''MESA_NO_MEMOBJ_CACHE'', ''1''),
      (''MESA_DEBUG'', ''flush''),
      (''force_s3tc_enable'', ''false''),
      (''MESA_EXTENSION_OVERRIDE'', ''-GL_ARB_buffer_storage -GL_EXT_buffer_storage''),
      (''LP_NUM_THREADS'', ''1''),
      (''MESA_FBO_CACHE'', ''0'')]"

text \<open>
  The condition under which the configurator goes on to set \<open>GDK_BACKEND\<close>: the
  variable is unset or \<open>wayland\<close>, the default display exists and is an X11 display,
  and the runner is compiled with the X11 backend of GDK (the test of the display is
  under \<open>#ifdef GDK_WINDOWING_X11\<close>).
\<close>

definition backend_forced :: "build \<Rightarrow> desktop \<Rightarrow> environment \<Rightarrow> bool" where
  "backend_forced b d e =
     ((e ''GDK_BACKEND'' = None \<or> e ''GDK_BACKEND'' = Some ''wayland'') \<and>
      default_display d = Some X11_display \<and> GDK_WINDOWING_X11 b)"

text \<open>The environment after the twelve unconditional calls.\<close>

abbreviation worked_around :: "environment \<Rightarrow> environment" where
  "worked_around e \<equiv>
     e(''vblank_mode'' \<mapsto> ''0'', ''LIBGL_DRI3_DISABLE'' \<mapsto> ''1'',
       ''CLUTTER_PAINT'' \<mapsto> ''disable-clipped-redraws:disable-culling'',
       ''MESA_GLSL_CACHE_DISABLE'' \<mapsto> ''1'', ''MESA_SHADER_CACHE_DISABLE'' \<mapsto> ''1'',
       ''mesa_glthread'' \<mapsto> ''false'', ''MESA_NO_MEMOBJ_CACHE'' \<mapsto> ''1'',
       ''MESA_DEBUG'' \<mapsto> ''flush'', ''force_s3tc_enable'' \<mapsto> ''false'',
       ''MESA_EXTENSION_OVERRIDE'' \<mapsto> ''-GL_ARB_buffer_storage -GL_EXT_buffer_storage'',
       ''LP_NUM_THREADS'' \<mapsto> ''1'', ''MESA_FBO_CACHE'' \<mapsto> ''0'')"

text \<open>
  The state after the twelve unconditional calls, named so that the proofs can treat them
  as one step.
\<close>

definition set_workarounds :: "state \<Rightarrow> state" where
  "set_workarounds s =
     call_setenv ''MESA_FBO_CACHE'' ''0'' 1
      (call_setenv ''LP_NUM_THREADS'' ''1'' 1
       (call_setenv ''MESA_EXTENSION_OVERRIDE'' ''-GL_ARB_buffer_storage -GL_EXT_buffer_storage'' 1
        (call_setenv ''force_s3tc_enable'' ''false'' 1
         (call_setenv ''MESA_DEBUG'' ''flush'' 1
          (call_setenv ''MESA_NO_MEMOBJ_CACHE'' ''1'' 1
           (call_setenv ''mesa_glthread'' ''false'' 1
            (call_setenv ''MESA_SHADER_CACHE_DISABLE'' ''1'' 1
             (call_setenv ''MESA_GLSL_CACHE_DISABLE'' ''1'' 1
              (call_setenv ''CLUTTER_PAINT'' ''disable-clipped-redraws:disable-culling'' 1
               (call_setenv ''LIBGL_DRI3_DISABLE'' ''1'' 1
                (call_setenv ''vblank_mode'' ''0'' 1 s)))))))))))"

text \<open>
  What a call adds to the trace: the events of \<open>s'\<close> after those of \<open>s\<close>.
\<close>

definition emitted :: "state \<Rightarrow> state \<Rightarrow> event list" where
  "emitted s s' = drop (length (trace s)) (trace s')"

text \<open>The \<open>setenv\<close> calls among some events: name, value and overwrite flag of each.\<close>

definition setenv_calls :: "event list \<Rightarrow> (string \<times> string \<times> int) list" where
  "setenv_calls evs =
     List.map_filter
       (\<lambda>ev. case ev of Setenv name val overwrite \<Rightarrow> Some (name, val, overwrite) | _ \<Rightarrow> None) evs"

text \<open>
  A step that only makes toolkit calls: environment, heap and application object are as
  before, the trace is the old one with events added, and none of them is a \<open>setenv\<close>
  call.
\<close>

definition only_emits :: "state \<Rightarrow> state \<Rightarrow> bool" where
  "only_emits s s' =
     (environ s' = environ s \<and> heap s' = heap s \<and> self s' = self s \<and>
      take (length (trace s)) (trace s') = trace s \<and> setenv_calls (emitted s s') = [])"

text \<open>
  Modelled from the spec: the order in which the framework runs the hooks, which is
  GApplication's dispatch and not in the file. The control flow of the spec is: process
  start, startup hook, command-line hook, activate hook. The activate hook runs when the
  command-line hook has called \<open>g_application_activate\<close>. The result is the exit status
  with the state after the last hook. What GDK answers may differ between startup and
  activation, so there is one \<open>desktop\<close> for each.
\<close>

definition launch ::
    "build \<Rightarrow> desktop \<Rightarrow> desktop \<Rightarrow> registration \<Rightarrow> string list \<Rightarrow> state \<Rightarrow> error + (int \<times> state)" where
  "launch b at_startup at_activation reg arguments s =
     (let s1 = my_application_startup b at_startup s in
      case my_application_local_command_line reg arguments s1 of
        Inl e \<Rightarrow> Inl e
      | Inr (handled, exit_status, s2) \<Rightarrow>
          if G_application_activate \<in> set (emitted s1 s2)
          then Inr (exit_status, my_application_activate b at_activation s2)
          else Inr (exit_status, s2))"

text \<open>
  The two ways \<open>my_application_activate\<close> can title the window: a header bar set as the
  titlebar, or the plain title on the window.
\<close>

definition header_bar_used :: "event list \<Rightarrow> bool" where
  "header_bar_used evs =
     (Gtk_header_bar_new \<in> set evs \<and> Gtk_window_set_titlebar Header_bar \<in> set evs \<and>
      Gtk_window_set_title ''bizsync'' \<notin> set evs)"

definition plain_title_used :: "event list \<Rightarrow> bool" where
  "plain_title_used evs =
     (Gtk_window_set_title ''bizsync'' \<in> set evs \<and>
      Gtk_header_bar_new \<notin> set evs \<and> Gtk_window_set_titlebar Header_bar \<notin> set evs)"

text \<open>
  The case in which the code clears \<open>use_header_bar\<close>: compiled with the X11 backend, an
  X11 display, and an X11 screen whose window manager is not named \<open>GNOME Shell\<close>.
\<close>

definition plain_title_case :: "build \<Rightarrow> desktop \<Rightarrow> bool" where
  "plain_title_case b d =
     (GDK_WINDOWING_X11 b \<and> default_display d = Some X11_display \<and>
      (case window_screen d of
         X11_screen name \<Rightarrow> name \<noteq> Some ''GNOME Shell''
       | Other_screen \<Rightarrow> False))"

text \<open>The vector the application object points to, when it points to an allocated one.\<close>

definition stored_arguments :: "state \<Rightarrow> string list option" where
  "stored_arguments s =
     (case dart_entrypoint_arguments (self s) of
        None \<Rightarrow> None
      | Some p \<Rightarrow> if p < length (heap s) then heap s ! p else None)"

text \<open>Concrete inputs, at which the theorems below are instantiated.\<close>

definition both_backends :: build where
  "both_backends = \<lparr>GDK_WINDOWING_X11 = True, GDK_WINDOWING_WAYLAND = True\<rparr>"

definition xfce_desktop :: desktop where
  "xfce_desktop =
     \<lparr>default_display = Some X11_display, window_screen = X11_screen (Some ''Xfwm4''),
      system_visual = Some 0\<rparr>"

definition wayland_desktop :: desktop where
  "wayland_desktop =
     \<lparr>default_display = Some Wayland_display, window_screen = Other_screen,
      system_visual = Some 0\<rparr>"

definition software_state :: state where
  "software_state =
     \<lparr>environ = [''LIBGL_ALWAYS_SOFTWARE'' \<mapsto> ''1'', ''vblank_mode'' \<mapsto> ''3''],
      heap = [], self = \<lparr>dart_entrypoint_arguments = None\<rparr>, trace = []\<rparr>"

definition hardware_state :: state where
  "hardware_state =
     \<lparr>environ = [''GL_RENDERER'' \<mapsto> ''NVIDIA GeForce RTX 3060/PCIe/SSE2''],
      heap = [], self = \<lparr>dart_entrypoint_arguments = None\<rparr>, trace = []\<rparr>"

definition launched_state :: state where
  "launched_state =
     \<lparr>environ = Map.empty, heap = [Some [''--verbose'']],
      self = \<lparr>dart_entrypoint_arguments = Some 0\<rparr>, trace = []\<rparr>"

section \<open>Properties\<close>

subsection \<open>The C library model\<close>

lemma strcmp_eq_0_iff: "strcmp a b = 0 \<longleftrightarrow> a = b"
  by (induction a b rule: strcmp.induct) auto

lemma strstr_None_iff: "strstr h n = None \<longleftrightarrow> \<not> sublist n h"
  by (induction h) (auto simp: sublist_Cons_right)

lemma strstr_found_iff: "strstr h n \<noteq> None \<longleftrightarrow> (\<exists>p s. h = p @ n @ s)"
  by (simp add: strstr_None_iff sublist_def)

subsection \<open>The detector\<close>

text \<open>
  C1. For every environment, \<open>is_mesa_software_rendering\<close> returns true if and only if
  \<open>LIBGL_ALWAYS_SOFTWARE\<close> is set and equals \<open>1\<close>, or \<open>GL_RENDERER\<close> is set and one of
  \<open>llvmpipe\<close>, \<open>softpipe\<close>, \<open>swrast\<close> occurs in it as a substring, byte for byte (so
  case-sensitively); otherwise it returns false.
\<close>

theorem is_mesa_software_rendering_iff:
  "is_mesa_software_rendering e \<longleftrightarrow>
     e ''LIBGL_ALWAYS_SOFTWARE'' = Some ''1'' \<or>
     (\<exists>r. e ''GL_RENDERER'' = Some r \<and>
        ((\<exists>p s. r = p @ ''llvmpipe'' @ s) \<or>
         (\<exists>p s. r = p @ ''softpipe'' @ s) \<or>
         (\<exists>p s. r = p @ ''swrast'' @ s)))"
proof -
  have flag: "\<And>v. (v \<noteq> None \<and> strcmp (the v) ''1'' = 0) \<longleftrightarrow> v = Some ''1''"
    by (auto simp: strcmp_eq_0_iff)
  show ?thesis
    unfolding is_mesa_software_rendering_def getenv_def Let_def flag strstr_found_iff
    by (cases "e ''GL_RENDERER''") auto
qed

theorem is_mesa_software_rendering_iff_witness:
  "is_mesa_software_rendering [''LIBGL_ALWAYS_SOFTWARE'' \<mapsto> ''1''] \<and>
   \<not> is_mesa_software_rendering [''LIBGL_ALWAYS_SOFTWARE'' \<mapsto> ''0'']"
  unfolding is_mesa_software_rendering_iff by simp

text \<open>
  The renderer string of Mesa's LLVMpipe is recognised; the same token in upper case is
  not.
\<close>

lemma is_mesa_software_rendering_examples:
  "is_mesa_software_rendering [''GL_RENDERER'' \<mapsto> ''llvmpipe (LLVM 15.0.7, 256 bits)'']"
  "\<not> is_mesa_software_rendering [''GL_RENDERER'' \<mapsto> ''LLVMPIPE (LLVM 15.0.7, 256 BITS)'']"
  by (simp_all add: is_mesa_software_rendering_def getenv_def)

subsection \<open>The configurator: its steps\<close>

lemma setenv_overwrite:
  "name \<noteq> [] \<Longrightarrow> CHR ''='' \<notin> set name \<Longrightarrow> overwrite \<noteq> 0 \<Longrightarrow>
   setenv name val overwrite e = e(name \<mapsto> val)"
  by (simp add: setenv_def)

lemma call_setenv_simps:
  "environ (call_setenv name val overwrite s) = setenv name val overwrite (environ s)"
  "trace (call_setenv name val overwrite s) = trace s @ [Setenv name val overwrite]"
  "heap (call_setenv name val overwrite s) = heap s"
  "self (call_setenv name val overwrite s) = self s"
  by (simp_all add: call_setenv_def emit_def)

lemma g_print_simps:
  "environ (g_print msg s) = environ s"
  "trace (g_print msg s) = trace s @ [G_print msg]"
  "heap (g_print msg s) = heap s"
  "self (g_print msg s) = self s"
  by (simp_all add: g_print_def emit_def)

lemma backend_test:
  "(v = None \<or> strcmp (the v) ''wayland'' = 0) \<longleftrightarrow> (v = None \<or> v = Some ''wayland'')"
  by (cases v) (simp_all add: strcmp_eq_0_iff)

lemma set_workarounds_environ:
  "environ (set_workarounds s) =
     (environ s)(''vblank_mode'' \<mapsto> ''0'', ''LIBGL_DRI3_DISABLE'' \<mapsto> ''1'',
       ''CLUTTER_PAINT'' \<mapsto> ''disable-clipped-redraws:disable-culling'',
       ''MESA_GLSL_CACHE_DISABLE'' \<mapsto> ''1'', ''MESA_SHADER_CACHE_DISABLE'' \<mapsto> ''1'',
       ''mesa_glthread'' \<mapsto> ''false'', ''MESA_NO_MEMOBJ_CACHE'' \<mapsto> ''1'',
       ''MESA_DEBUG'' \<mapsto> ''flush'', ''force_s3tc_enable'' \<mapsto> ''false'',
       ''MESA_EXTENSION_OVERRIDE'' \<mapsto> ''-GL_ARB_buffer_storage -GL_EXT_buffer_storage'',
       ''LP_NUM_THREADS'' \<mapsto> ''1'', ''MESA_FBO_CACHE'' \<mapsto> ''0'')"
  unfolding set_workarounds_def
  by (simp only: call_setenv_simps) (simp add: setenv_overwrite)

lemma set_workarounds_trace:
  "trace (set_workarounds s) =
     trace s @ map (\<lambda>(name, val). Setenv name val 1) workaround_variables"
  unfolding set_workarounds_def workaround_variables_def
  by (simp add: call_setenv_simps)

lemma set_workarounds_rest:
  "heap (set_workarounds s) = heap s" "self (set_workarounds s) = self s"
  unfolding set_workarounds_def by (simp_all add: call_setenv_simps)

lemma set_workarounds_backend:
  "environ (set_workarounds s) ''GDK_BACKEND'' = environ s ''GDK_BACKEND''"
  by (simp add: set_workarounds_environ)

lemma configure_environ:
  assumes "is_mesa_software_rendering (environ s)"
  shows "environ (configure_mesa_rendering b d s) =
           (if backend_forced b d (environ s)
            then (worked_around (environ s))(''GDK_BACKEND'' \<mapsto> ''x11'')
            else worked_around (environ s))"
  using assms
  unfolding configure_mesa_rendering_def Let_def backend_test set_workarounds_def [symmetric]
  by (simp add: g_print_simps call_setenv_simps setenv_overwrite getenv_def
        set_workarounds_backend gdk_display_get_default_def GDK_IS_X11_DISPLAY_def
        backend_forced_def set_workarounds_environ)

lemma configure_trace:
  assumes "is_mesa_software_rendering (environ s)"
  shows "trace (configure_mesa_rendering b d s) =
           trace s @ map (\<lambda>(name, val). Setenv name val 1) workaround_variables @
           (if backend_forced b d (environ s) then [Setenv ''GDK_BACKEND'' ''x11'' 1] else []) @
           map (\<lambda>line. G_print (line @ [CHR 0x0A]))
             [''BizSync: Mesa software rendering detected, applying comprehensive workarounds'',
              ''  - Disabled vsync (vblank_mode=0)'',
              ''  - Disabled DRI3 (LIBGL_DRI3_DISABLE=1)'',
              ''  - Disabled GLSL cache'',
              ''  - Single-threaded rendering (LP_NUM_THREADS=1)'',
              ''  - Synchronous flushing enabled'']"
  using assms
  unfolding configure_mesa_rendering_def Let_def backend_test set_workarounds_def [symmetric]
  by (simp add: g_print_simps call_setenv_simps getenv_def
        set_workarounds_backend gdk_display_get_default_def GDK_IS_X11_DISPLAY_def
        backend_forced_def set_workarounds_trace)

lemma configure_rest:
  "heap (configure_mesa_rendering b d s) = heap s"
  "self (configure_mesa_rendering b d s) = self s"
  unfolding configure_mesa_rendering_def Let_def set_workarounds_def [symmetric]
  by (simp_all add: call_setenv_simps g_print_simps set_workarounds_rest)

lemma worked_around_sets:
  assumes "(name, val) \<in> set workaround_variables"
  shows "worked_around e name = Some val"
  using assms unfolding workaround_variables_def
  by (simp only: list.set insert_iff empty_iff prod.inject) (elim disjE conjE; simp)

lemma worked_around_differs: "(name, val) \<in> set workaround_variables \<Longrightarrow> name \<noteq> ''GDK_BACKEND''"
  unfolding workaround_variables_def
  by (simp only: list.set insert_iff empty_iff prod.inject) (elim disjE conjE; simp)

lemma configure_sets:
  assumes "is_mesa_software_rendering (environ s)"
    and "(name, val) \<in> set workaround_variables"
  shows "environ (configure_mesa_rendering b d s) name = Some val"
proof -
  have w: "worked_around (environ s) name = Some val"
    by (rule worked_around_sets [OF assms(2)])
  have n: "name \<noteq> ''GDK_BACKEND''"
    by (rule worked_around_differs [OF assms(2)])
  have g: "((worked_around (environ s))(''GDK_BACKEND'' \<mapsto> ''x11'')) name = Some val"
    by (simp only: fun_upd_other [OF n] w)
  show ?thesis
  proof (cases "backend_forced b d (environ s)")
    case True
    show ?thesis unfolding configure_environ [OF assms(1)] using g
      by (simp only: True if_True)
  next
    case False
    show ?thesis unfolding configure_environ [OF assms(1)] using w
      by (simp only: False if_False)
  qed
qed

lemma configure_frame:
  assumes "is_mesa_software_rendering (environ s)"
    and "name \<notin> fst ` set workaround_variables" and "name \<noteq> ''GDK_BACKEND''"
  shows "environ (configure_mesa_rendering b d s) name = environ s name"
  using assms(2,3) unfolding configure_environ [OF assms(1)] workaround_variables_def
  by simp

lemma configure_backend:
  assumes "is_mesa_software_rendering (environ s)"
  shows "environ (configure_mesa_rendering b d s) ''GDK_BACKEND'' =
           (if backend_forced b d (environ s) then Some ''x11'' else environ s ''GDK_BACKEND'')"
  unfolding configure_environ [OF assms]
  by simp

subsection \<open>The configurator: what it sets\<close>

lemma emit_simps:
  "trace (emit ev s) = trace s @ [ev]"
  "environ (emit ev s) = environ s"
  "heap (emit ev s) = heap s"
  "self (emit ev s) = self s"
  by (simp_all add: emit_def)

lemma setenv_calls_simps:
  "setenv_calls [] = []"
  "setenv_calls (Setenv name val overwrite # evs) = (name, val, overwrite) # setenv_calls evs"
  "setenv_calls (G_print msg # evs) = setenv_calls evs"
  "setenv_calls (Parent_startup # evs) = setenv_calls evs"
  "setenv_calls (xs @ ys) = setenv_calls xs @ setenv_calls ys"
  by (simp_all add: setenv_calls_def map_filter_simps map_filter_def)

lemma configure_emitted:
  "emitted s (configure_mesa_rendering b d s) =
     (if is_mesa_software_rendering (environ s) then
        map (\<lambda>(name, val). Setenv name val 1) workaround_variables @
        (if backend_forced b d (environ s) then [Setenv ''GDK_BACKEND'' ''x11'' 1] else []) @
        map (\<lambda>line. G_print (line @ [CHR 0x0A]))
          [''BizSync: Mesa software rendering detected, applying comprehensive workarounds'',
           ''  - Disabled vsync (vblank_mode=0)'',
           ''  - Disabled DRI3 (LIBGL_DRI3_DISABLE=1)'',
           ''  - Disabled GLSL cache'',
           ''  - Single-threaded rendering (LP_NUM_THREADS=1)'',
           ''  - Synchronous flushing enabled'']
      else [])"
proof (cases "is_mesa_software_rendering (environ s)")
  case True
  show ?thesis unfolding emitted_def configure_trace [OF True]
    by (simp only: True if_True append_eq_conv_conj drop_append)
       simp
next
  case False
  then show ?thesis by (simp add: emitted_def configure_mesa_rendering_def)
qed

lemma configure_setenv_calls:
  assumes "is_mesa_software_rendering (environ s)"
  shows "setenv_calls (emitted s (configure_mesa_rendering b d s)) =
           map (\<lambda>(name, val). (name, val, 1)) workaround_variables @
           (if backend_forced b d (environ s) then [(''GDK_BACKEND'', ''x11'', 1)] else [])"
  unfolding configure_emitted
  by (simp add: assms setenv_calls_simps workaround_variables_def)

lemma workaround_variables_twelve:
  "length workaround_variables = 12" "distinct (map fst workaround_variables)"
  "''GDK_BACKEND'' \<notin> fst ` set workaround_variables"
  by (simp_all add: workaround_variables_def)

lemma software_state_detected: "is_mesa_software_rendering (environ software_state)"
  by (simp add: software_state_def is_mesa_software_rendering_def getenv_def)

lemma software_state_forced: "backend_forced both_backends xfce_desktop (environ software_state)"
  by (simp add: software_state_def backend_forced_def both_backends_def xfce_desktop_def)

text \<open>
  C2. When the detector returns true, \<open>configure_mesa_rendering\<close> calls \<open>setenv\<close> for
  exactly the twelve variables of \<open>workaround_variables\<close>, in that order and with those
  values, and after them for \<open>GDK_BACKEND\<close> (with \<open>x11\<close>) exactly when
  \<open>backend_forced\<close> holds. So afterwards each of the twelve has its literal value,
  every variable other than the twelve and \<open>GDK_BACKEND\<close> is as before, and
  \<open>GDK_BACKEND\<close> is \<open>x11\<close> when \<open>backend_forced\<close> holds and as before otherwise.
  A \<open>setenv\<close> call for \<open>GDK_BACKEND\<close> is made only when \<open>GDK_BACKEND\<close> was unset or
  \<open>wayland\<close> and the default display exists and is an X11 display, and then with
  \<open>x11\<close>.
\<close>

theorem configure_mesa_rendering_detected:
  assumes "is_mesa_software_rendering (environ s)"
  shows "setenv_calls (emitted s (configure_mesa_rendering b d s)) =
           map (\<lambda>(name, val). (name, val, 1)) workaround_variables @
           (if backend_forced b d (environ s) then [(''GDK_BACKEND'', ''x11'', 1)] else []) \<and>
         length workaround_variables = 12 \<and> distinct (map fst workaround_variables) \<and>
         (\<forall>(name, val) \<in> set workaround_variables.
            environ (configure_mesa_rendering b d s) name = Some val) \<and>
         (\<forall>name. name \<notin> fst ` set workaround_variables \<and> name \<noteq> ''GDK_BACKEND'' \<longrightarrow>
            environ (configure_mesa_rendering b d s) name = environ s name) \<and>
         environ (configure_mesa_rendering b d s) ''GDK_BACKEND'' =
           (if backend_forced b d (environ s) then Some ''x11'' else environ s ''GDK_BACKEND'') \<and>
         (\<forall>(name, val, overwrite) \<in> set (setenv_calls (emitted s (configure_mesa_rendering b d s))).
            name = ''GDK_BACKEND'' \<longrightarrow>
              val = ''x11'' \<and>
              (environ s ''GDK_BACKEND'' = None \<or> environ s ''GDK_BACKEND'' = Some ''wayland'') \<and>
              default_display d = Some X11_display) \<and>
         (backend_forced b d (environ s) \<longleftrightarrow>
            (environ s ''GDK_BACKEND'' = None \<or> environ s ''GDK_BACKEND'' = Some ''wayland'') \<and>
            default_display d = Some X11_display \<and> GDK_WINDOWING_X11 b)"
proof -
  have writes: "\<forall>(name, val, overwrite) \<in> set (setenv_calls (emitted s (configure_mesa_rendering b d s))).
      name = ''GDK_BACKEND'' \<longrightarrow>
        val = ''x11'' \<and>
        (environ s ''GDK_BACKEND'' = None \<or> environ s ''GDK_BACKEND'' = Some ''wayland'') \<and>
        default_display d = Some X11_display"
    unfolding configure_setenv_calls [OF assms]
    by (auto simp: backend_forced_def dest: worked_around_differs split: if_splits)
  have sets: "\<forall>(name, val) \<in> set workaround_variables.
      environ (configure_mesa_rendering b d s) name = Some val"
    using configure_sets [OF assms] by blast
  have frame: "\<forall>name. name \<notin> fst ` set workaround_variables \<and> name \<noteq> ''GDK_BACKEND'' \<longrightarrow>
      environ (configure_mesa_rendering b d s) name = environ s name"
    using configure_frame [OF assms] by blast
  have only: "backend_forced b d (environ s) \<longleftrightarrow>
      (environ s ''GDK_BACKEND'' = None \<or> environ s ''GDK_BACKEND'' = Some ''wayland'') \<and>
      default_display d = Some X11_display \<and> GDK_WINDOWING_X11 b"
    by (simp add: backend_forced_def)
  show ?thesis
    using configure_setenv_calls [OF assms] workaround_variables_twelve(1,2) sets frame
      configure_backend [OF assms] writes only
    by (intro conjI)
qed

theorem configure_mesa_rendering_detected_witness:
  "is_mesa_software_rendering (environ software_state) \<and>
   setenv_calls (emitted software_state
     (configure_mesa_rendering both_backends xfce_desktop software_state)) =
     map (\<lambda>(name, val). (name, val, 1)) workaround_variables @ [(''GDK_BACKEND'', ''x11'', 1)] \<and>
   environ (configure_mesa_rendering both_backends xfce_desktop software_state) ''GDK_BACKEND'' =
     Some ''x11''"
  using configure_mesa_rendering_detected [OF software_state_detected, of both_backends xfce_desktop]
    software_state_detected software_state_forced
  by simp

text \<open>
  C3. When the detector returns false, \<open>configure_mesa_rendering\<close> changes nothing:
  the state after the call is the state before it, so every environment variable reads
  as before, and no call is made.
\<close>

theorem configure_mesa_rendering_not_detected:
  assumes "\<not> is_mesa_software_rendering (environ s)"
  shows "configure_mesa_rendering b d s = s \<and>
         (\<forall>name. getenv name (environ (configure_mesa_rendering b d s)) = getenv name (environ s)) \<and>
         emitted s (configure_mesa_rendering b d s) = []"
  using assms by (simp add: configure_mesa_rendering_def emitted_def)

theorem configure_mesa_rendering_not_detected_witness:
  "\<not> is_mesa_software_rendering (environ hardware_state) \<and>
   configure_mesa_rendering both_backends xfce_desktop hardware_state = hardware_state"
proof -
  have h: "\<not> is_mesa_software_rendering (environ hardware_state)"
    by (simp add: hardware_state_def is_mesa_software_rendering_def getenv_def)
  from configure_mesa_rendering_not_detected [OF h, of both_backends xfce_desktop] h
  show ?thesis by simp
qed

text \<open>
  C9. When the configurator triggers, each of the twelve variables has its fixed value
  afterwards whatever it was before, set or unset: the call for it is made with the
  overwrite flag 1, and every \<open>setenv\<close> call of the configurator has a nonzero flag.
\<close>

theorem configure_mesa_rendering_overwrites:
  assumes "is_mesa_software_rendering (environ s)"
    and "(name, val) \<in> set workaround_variables"
  shows "environ (configure_mesa_rendering b d s) name = Some val \<and>
         (name, val, 1) \<in> set (setenv_calls (emitted s (configure_mesa_rendering b d s))) \<and>
         (\<forall>(name', val', overwrite) \<in> set (setenv_calls (emitted s (configure_mesa_rendering b d s))).
            overwrite \<noteq> 0)"
proof -
  have calls: "set (setenv_calls (emitted s (configure_mesa_rendering b d s))) =
      (\<lambda>(name, val). (name, val, 1)) ` set workaround_variables \<union>
      (if backend_forced b d (environ s) then {(''GDK_BACKEND'', ''x11'', 1)} else {})"
    unfolding configure_setenv_calls [OF assms(1)] by simp
  have "(name, val, 1) \<in> set (setenv_calls (emitted s (configure_mesa_rendering b d s)))"
    unfolding calls using assms(2) by force
  moreover have "\<forall>(name', val', overwrite) \<in> set (setenv_calls (emitted s (configure_mesa_rendering b d s))).
            overwrite \<noteq> 0"
    unfolding calls by auto
  ultimately show ?thesis
    using configure_sets [OF assms] by simp
qed

theorem configure_mesa_rendering_overwrites_witness:
  "environ software_state ''vblank_mode'' = Some ''3'' \<and>
   environ (configure_mesa_rendering both_backends xfce_desktop software_state) ''vblank_mode'' =
     Some ''0''"
proof -
  have v: "(''vblank_mode'', ''0'') \<in> set workaround_variables"
    by (simp add: workaround_variables_def)
  have old: "environ software_state ''vblank_mode'' = Some ''3''"
    by (simp add: software_state_def)
  from configure_mesa_rendering_overwrites [OF software_state_detected v, of both_backends xfce_desktop]
    old
  show ?thesis by simp
qed

subsection \<open>Activation\<close>

lemma emitted_append: "trace s' = trace s @ evs \<Longrightarrow> emitted s s' = evs"
  by (simp add: emitted_def)

lemma g_strcmp0_eq_0_iff: "g_strcmp0 a b = 0 \<longleftrightarrow> a = b"
  by (cases a; cases b) (simp_all add: strcmp_eq_0_iff)

lemma activate_header_bar:
  assumes "\<not> plain_title_case b d"
  shows "header_bar_used (emitted s (my_application_activate b d s))"
  using assms
  unfolding my_application_activate_def Let_def header_bar_used_def emitted_def plain_title_case_def
  by (cases "window_screen d")
     (simp_all add: emit_simps g_strcmp0_eq_0_iff gdk_display_get_default_def
        GDK_IS_X11_DISPLAY_def GDK_IS_WAYLAND_DISPLAY_def split: option.splits)

lemma activate_plain_title:
  assumes "plain_title_case b d"
  shows "plain_title_used (emitted s (my_application_activate b d s))"
  using assms
  unfolding my_application_activate_def Let_def plain_title_used_def emitted_def plain_title_case_def
  by (cases "window_screen d")
     (simp_all add: emit_simps g_strcmp0_eq_0_iff gdk_display_get_default_def
        GDK_IS_X11_DISPLAY_def GDK_IS_WAYLAND_DISPLAY_def split: option.splits)

text \<open>
  C6. The header-bar decision of \<open>my_application_activate\<close>: on a Wayland display the
  header bar is used; on an X11 display whose window manager is named \<open>GNOME Shell\<close>
  the header bar is used; on an X11 display with any other window-manager name (or none)
  the plain title is used instead, the runner being compiled with the X11 backend, without
  which there is no X11 display; and when the display is neither (or there is none), the
  header bar is used.
\<close>

theorem header_bar_decision:
  "(default_display d = Some Wayland_display \<longrightarrow>
      header_bar_used (emitted s (my_application_activate b d s))) \<and>
   (default_display d = Some X11_display \<and> window_screen d = X11_screen (Some ''GNOME Shell'') \<longrightarrow>
      header_bar_used (emitted s (my_application_activate b d s))) \<and>
   (GDK_WINDOWING_X11 b \<and> default_display d = Some X11_display \<and>
    window_screen d = X11_screen name \<and> name \<noteq> Some ''GNOME Shell'' \<longrightarrow>
      plain_title_used (emitted s (my_application_activate b d s))) \<and>
   (default_display d \<noteq> Some Wayland_display \<and> default_display d \<noteq> Some X11_display \<longrightarrow>
      header_bar_used (emitted s (my_application_activate b d s)))"
proof (intro conjI impI)
  assume "default_display d = Some Wayland_display"
  then have "\<not> plain_title_case b d" by (simp add: plain_title_case_def)
  then show "header_bar_used (emitted s (my_application_activate b d s))"
    by (rule activate_header_bar)
next
  assume "default_display d = Some X11_display \<and> window_screen d = X11_screen (Some ''GNOME Shell'')"
  then have "\<not> plain_title_case b d" by (simp add: plain_title_case_def)
  then show "header_bar_used (emitted s (my_application_activate b d s))"
    by (rule activate_header_bar)
next
  assume "GDK_WINDOWING_X11 b \<and> default_display d = Some X11_display \<and>
    window_screen d = X11_screen name \<and> name \<noteq> Some ''GNOME Shell''"
  then have "plain_title_case b d" by (simp add: plain_title_case_def)
  then show "plain_title_used (emitted s (my_application_activate b d s))"
    by (rule activate_plain_title)
next
  assume "default_display d \<noteq> Some Wayland_display \<and> default_display d \<noteq> Some X11_display"
  then have "\<not> plain_title_case b d" by (simp add: plain_title_case_def)
  then show "header_bar_used (emitted s (my_application_activate b d s))"
    by (rule activate_header_bar)
qed

theorem header_bar_decision_witness:
  "plain_title_used (emitted launched_state
     (my_application_activate both_backends xfce_desktop launched_state)) \<and>
   header_bar_used (emitted launched_state
     (my_application_activate both_backends wayland_desktop launched_state))"
proof -
  have x: "GDK_WINDOWING_X11 both_backends \<and> default_display xfce_desktop = Some X11_display \<and>
      window_screen xfce_desktop = X11_screen (Some ''Xfwm4'') \<and> Some ''Xfwm4'' \<noteq> Some ''GNOME Shell''"
    by (simp add: both_backends_def xfce_desktop_def)
  have w: "default_display wayland_desktop = Some Wayland_display"
    by (simp add: wayland_desktop_def)
  from header_bar_decision [of xfce_desktop launched_state both_backends "Some ''Xfwm4''"] x
  have 1: "plain_title_used (emitted launched_state
     (my_application_activate both_backends xfce_desktop launched_state))"
    by blast
  from header_bar_decision [of wayland_desktop launched_state both_backends None] w
  have 2: "header_bar_used (emitted launched_state
     (my_application_activate both_backends wayland_desktop launched_state))"
    by blast
  from 1 2 show ?thesis by (rule conjI)
qed

subsection \<open>The local command line\<close>

lemma local_command_line_failed:
  "my_application_local_command_line (Register_failed message) (prog # rest) s =
     Inr (True, 1,
       s\<lparr>heap := heap s @ [Some rest],
         self := (self s)\<lparr>dart_entrypoint_arguments := Some (length (heap s))\<rparr>,
         trace := trace s @ [G_application_register,
                             G_warning (''Failed to register: '' @ message)]\<rparr>)"
  by (simp add: my_application_local_command_line_def vector_from_def emit_def)

lemma local_command_line_registered:
  "my_application_local_command_line Registered (prog # rest) s =
     Inr (True, 0,
       s\<lparr>heap := heap s @ [Some rest],
         self := (self s)\<lparr>dart_entrypoint_arguments := Some (length (heap s))\<rparr>,
         trace := trace s @ [G_application_register, G_application_activate]\<rparr>)"
  by (simp add: my_application_local_command_line_def vector_from_def emit_def)

text \<open>
  With no argument at all, not even the name of the binary, \<open>*arguments + 1\<close> is beyond
  the terminator of the vector and \<open>g_strdupv\<close> reads out of bounds.
\<close>

lemma local_command_line_no_arguments:
  "my_application_local_command_line reg [] s = Inl Out_of_bounds_read"
  by (simp add: my_application_local_command_line_def vector_from_def)

text \<open>
  C4. In \<open>my_application_local_command_line\<close>, when the registration fails, a warning
  with the message of the error is logged, the exit status is 1 and
  \<open>g_application_activate\<close> is not called; when it succeeds, \<open>g_application_activate\<close>
  is called exactly once and the exit status is 0.
\<close>

theorem local_command_line_registration:
  "(\<exists>s'. my_application_local_command_line (Register_failed message) (prog # rest) s =
            Inr (True, 1, s') \<and>
          emitted s s' =
            [G_application_register, G_warning (''Failed to register: '' @ message)] \<and>
          count_list (emitted s s') G_application_activate = 0) \<and>
   (\<exists>s'. my_application_local_command_line Registered (prog # rest) s = Inr (True, 0, s') \<and>
          emitted s s' = [G_application_register, G_application_activate] \<and>
          count_list (emitted s s') G_application_activate = 1)"
  unfolding local_command_line_failed local_command_line_registered
  by (simp add: emitted_def)

theorem local_command_line_registration_witness:
  "my_application_local_command_line (Register_failed ''no bus'') [''bizsync''] hardware_state =
     Inr (True, 1, hardware_state
       \<lparr>heap := [Some []],
        self := \<lparr>dart_entrypoint_arguments = Some 0\<rparr>,
        trace := [G_application_register, G_warning ''Failed to register: no bus'']\<rparr>)"
proof -
  from local_command_line_registration [of "''no bus''" "''bizsync''" "[]" hardware_state]
  obtain s' where
    r: "my_application_local_command_line (Register_failed ''no bus'') [''bizsync''] hardware_state =
          Inr (True, 1, s')"
    by blast
  have "my_application_local_command_line (Register_failed ''no bus'') [''bizsync''] hardware_state =
     Inr (True, 1, hardware_state
       \<lparr>heap := [Some []],
        self := \<lparr>dart_entrypoint_arguments = Some 0\<rparr>,
        trace := [G_application_register, G_warning ''Failed to register: no bus'']\<rparr>)"
    by (simp add: local_command_line_failed hardware_state_def)
  with r show ?thesis by simp
qed

text \<open>
  For every argument vector \<open>prog # rest\<close>, whose element 0 is the name of the binary,
  the handler stores as entrypoint arguments a copy of exactly \<open>rest\<close>: one element is
  stripped whatever the length, and with no further argument the stored vector is empty.
\<close>

lemma local_command_line_stores:
  "\<exists>status s'. my_application_local_command_line reg (prog # rest) s = Inr (True, status, s') \<and>
     stored_arguments s' = Some rest \<and>
     dart_entrypoint_arguments (self s') = Some (length (heap s)) \<and>
     heap s' = heap s @ [Some rest] \<and>
     length rest = length (prog # rest) - 1"
  by (cases reg)
     (simp_all add: local_command_line_failed local_command_line_registered stored_arguments_def)

lemma local_command_line_stores_example:
  "\<exists>status s'.
     my_application_local_command_line Registered [''bizsync''] hardware_state =
       Inr (True, status, s') \<and>
     stored_arguments s' = Some []"
  using local_command_line_stores [of Registered "''bizsync''" "[]" hardware_state]
  by blast

text \<open>
  C5. The handler is to store the argument vector without its element 0 for every
  argument vector, whatever its length. It does for every vector that has an element 0
  (\<open>local_command_line_stores\<close>). The vector of length 0, which \<open>g_application_run\<close>
  passes on when \<open>argc\<close> is 0, has none: there the handler stores nothing and does not
  return a result, since \<open>*arguments + 1\<close> is beyond the terminator and \<open>g_strdupv\<close>
  reads out of bounds, whether the registration would succeed or fail.
\<close>

theorem local_command_line_empty_vector:
  "my_application_local_command_line Registered [] hardware_state = Inl Out_of_bounds_read \<and>
   my_application_local_command_line (Register_failed ''no bus'') [] hardware_state =
     Inl Out_of_bounds_read"
  by (simp add: local_command_line_no_arguments)

text \<open>
  C10. \<open>my_application_local_command_line\<close> returns \<open>TRUE\<close> on every path: with the
  name of the binary in the vector it returns, and its result is \<open>TRUE\<close> whether the
  registration failed or succeeded; and whenever it returns at all, it returns \<open>TRUE\<close>.
\<close>

theorem local_command_line_returns_true:
  "(\<exists>status s'. my_application_local_command_line reg (prog # rest) s = Inr (True, status, s')) \<and>
   (\<forall>handled status s'.
      my_application_local_command_line reg arguments s = Inr (handled, status, s') \<longrightarrow> handled)"
proof (intro conjI allI impI)
  show "\<exists>status s'. my_application_local_command_line reg (prog # rest) s = Inr (True, status, s')"
    by (cases reg) (simp_all add: local_command_line_failed local_command_line_registered)
next
  fix handled status s'
  assume r: "my_application_local_command_line reg arguments s = Inr (handled, status, s')"
  show handled
  proof (cases arguments)
    case Nil
    with r show ?thesis by (simp add: local_command_line_no_arguments)
  next
    case (Cons prog rest)
    with r show ?thesis
      by (cases reg) (simp_all add: local_command_line_failed local_command_line_registered)
  qed
qed

theorem local_command_line_returns_true_witness:
  "fst (projr (my_application_local_command_line (Register_failed ''no bus'')
     [''bizsync'', ''--verbose''] hardware_state))"
proof -
  from local_command_line_returns_true
    [of "Register_failed ''no bus''" "''bizsync''" "[''--verbose'']" hardware_state]
  obtain status s' where
    "my_application_local_command_line (Register_failed ''no bus'')
       [''bizsync'', ''--verbose''] hardware_state = Inr (True, status, s')"
    by blast
  then show ?thesis by simp
qed

subsection \<open>Disposal\<close>

lemma dispose_allocated:
  assumes "dart_entrypoint_arguments (self s) = Some p" "p < length (heap s)" "heap s ! p = Some v"
  shows "my_application_dispose s =
           Inr (s\<lparr>heap := (heap s)[p := None],
                  self := (self s)\<lparr>dart_entrypoint_arguments := None\<rparr>,
                  trace := trace s @ [G_strfreev p, Parent_dispose]\<rparr>)"
  using assms by (simp add: my_application_dispose_def emit_def)

lemma dispose_null:
  assumes "dart_entrypoint_arguments (self s) = None"
  shows "my_application_dispose s = Inr (s\<lparr>trace := trace s @ [Parent_dispose]\<rparr>)"
  using assms by (simp add: my_application_dispose_def emit_def)

text \<open>
  C7. \<open>my_application_dispose\<close>, when the application object points to an allocated
  argument vector, frees that vector once, clears the pointer and then calls the disposal
  of the parent class; a disposal after that frees nothing (no second \<open>g_strfreev\<close>,
  the heap stays as it is) and only calls the parent. When the pointer is \<open>NULL\<close>
  already, disposal is safe: nothing is freed and the parent is called.
\<close>

theorem dispose_frees_once:
  "(dart_entrypoint_arguments (self s) = Some p \<and> p < length (heap s) \<and> heap s ! p = Some v \<longrightarrow>
      (\<exists>s'. my_application_dispose s = Inr s' \<and>
             emitted s s' = [G_strfreev p, Parent_dispose] \<and>
             heap s' = (heap s)[p := None] \<and>
             dart_entrypoint_arguments (self s') = None \<and>
             (\<exists>s''. my_application_dispose s' = Inr s'' \<and>
                    emitted s' s'' = [Parent_dispose] \<and> heap s'' = heap s'))) \<and>
   (dart_entrypoint_arguments (self s) = None \<longrightarrow>
      (\<exists>s'. my_application_dispose s = Inr s' \<and>
             emitted s s' = [Parent_dispose] \<and> heap s' = heap s \<and>
             dart_entrypoint_arguments (self s') = None))"
proof (intro conjI impI)
  assume a: "dart_entrypoint_arguments (self s) = Some p \<and> p < length (heap s) \<and> heap s ! p = Some v"
  let ?s' = "s\<lparr>heap := (heap s)[p := None],
               self := (self s)\<lparr>dart_entrypoint_arguments := None\<rparr>,
               trace := trace s @ [G_strfreev p, Parent_dispose]\<rparr>"
  have first: "my_application_dispose s = Inr ?s'"
    using a by (simp add: dispose_allocated)
  have second: "my_application_dispose ?s' = Inr (?s'\<lparr>trace := trace ?s' @ [Parent_dispose]\<rparr>)"
    by (rule dispose_null) simp
  show "\<exists>s'. my_application_dispose s = Inr s' \<and>
             emitted s s' = [G_strfreev p, Parent_dispose] \<and>
             heap s' = (heap s)[p := None] \<and>
             dart_entrypoint_arguments (self s') = None \<and>
             (\<exists>s''. my_application_dispose s' = Inr s'' \<and>
                    emitted s' s'' = [Parent_dispose] \<and> heap s'' = heap s')"
    by (simp add: first second emitted_def)
next
  assume "dart_entrypoint_arguments (self s) = None"
  then show "\<exists>s'. my_application_dispose s = Inr s' \<and>
             emitted s s' = [Parent_dispose] \<and> heap s' = heap s \<and>
             dart_entrypoint_arguments (self s') = None"
    by (simp add: dispose_null emitted_def)
qed

theorem dispose_frees_once_witness:
  "\<exists>s'. my_application_dispose launched_state = Inr s' \<and>
     emitted launched_state s' = [G_strfreev 0, Parent_dispose] \<and>
     heap s' = [None] \<and>
     (\<exists>s''. my_application_dispose s' = Inr s'' \<and> emitted s' s'' = [Parent_dispose] \<and>
        heap s'' = heap s')"
proof -
  have a: "dart_entrypoint_arguments (self launched_state) = Some 0 \<and>
      0 < length (heap launched_state) \<and> heap launched_state ! 0 = Some [''--verbose'']"
    by (simp add: launched_state_def)
  have h: "(heap launched_state)[0 := None] = [None]"
    by (simp add: launched_state_def)
  from dispose_frees_once [of launched_state 0 "[''--verbose'']"] a h
  show ?thesis by auto
qed

subsection \<open>Startup, and the order of a launch\<close>

lemma only_emits_refl: "only_emits s s"
  by (simp add: only_emits_def emitted_def setenv_calls_simps)

lemma only_emits_emit:
  assumes "only_emits s x" and "setenv_calls [ev] = []"
  shows "only_emits s (emit ev x)"
proof -
  from assms(1) have t: "trace x = trace s @ emitted s x"
    unfolding only_emits_def emitted_def by (metis append_take_drop_id)
  then have "trace (emit ev x) = trace s @ (emitted s x @ [ev])"
    by (simp add: emit_simps)
  then have e: "emitted s (emit ev x) = emitted s x @ [ev]"
    and p: "take (length (trace s)) (trace (emit ev x)) = trace s"
    by (simp_all add: emitted_def)
  from assms have "setenv_calls (emitted s x @ [ev]) = []"
    by (simp add: only_emits_def setenv_calls_simps)
  with assms(1) e p show ?thesis
    by (simp add: only_emits_def emit_simps)
qed

lemma only_emits_if:
  "only_emits s x \<Longrightarrow> only_emits s y \<Longrightarrow> only_emits s (if c then x else y)"
  by simp

lemma only_emits_case:
  "only_emits s x \<Longrightarrow> (\<And>v. only_emits s (f v)) \<Longrightarrow>
   only_emits s (case opt of None \<Rightarrow> x | Some v \<Rightarrow> f v)"
  by (cases opt) simp_all

lemma only_emits_Let: "only_emits s (f v) \<Longrightarrow> only_emits s (Let v f)"
  by simp

lemma only_emits_trace: "only_emits s s' \<Longrightarrow> trace s' = trace s @ emitted s s'"
  unfolding only_emits_def emitted_def by (metis append_take_drop_id)

text \<open>An event is among those added once it has been emitted, whatever follows.\<close>

lemma emitted_here:
  assumes "only_emits s x"
  shows "ev \<in> set (emitted s (emit ev x))"
proof -
  have "trace (emit ev x) = trace s @ (emitted s x @ [ev])"
    using only_emits_trace [OF assms] by (simp add: emit_simps)
  then have "emitted s (emit ev x) = emitted s x @ [ev]"
    by (rule emitted_append)
  then show ?thesis by simp
qed

lemma emitted_later: "ev' \<in> set (emitted s x) \<Longrightarrow> ev' \<in> set (emitted s (emit ev x))"
  by (simp add: emitted_def emit_simps)

lemma emitted_if:
  "ev \<in> set (emitted s x) \<Longrightarrow> ev \<in> set (emitted s y) \<Longrightarrow>
   ev \<in> set (emitted s (if c then x else y))"
  by simp

lemma emitted_case:
  "ev \<in> set (emitted s x) \<Longrightarrow> (\<And>v. ev \<in> set (emitted s (f v))) \<Longrightarrow>
   ev \<in> set (emitted s (case opt of None \<Rightarrow> x | Some v \<Rightarrow> f v))"
  by (cases opt) simp_all

lemma emitted_Let: "ev \<in> set (emitted s (f v)) \<Longrightarrow> ev \<in> set (emitted s (Let v f))"
  by simp

text \<open>
  Activation only makes toolkit calls, and among them creates the Dart project and the
  Flutter view.
\<close>

lemma activate_only_emits: "only_emits s (my_application_activate b d s)"
  unfolding my_application_activate_def
  by (intro only_emits_Let only_emits_if only_emits_case only_emits_emit only_emits_refl)
     (simp_all add: setenv_calls_def map_filter_def)

lemma activate_creates_view: "Fl_view_new \<in> set (emitted s (my_application_activate b d s))"
  unfolding my_application_activate_def
  by ((rule emitted_Let emitted_here | rule emitted_later emitted_if emitted_case |
       rule only_emits_Let only_emits_if only_emits_case only_emits_emit only_emits_refl |
       simp add: setenv_calls_def map_filter_def)+)

lemma activate_creates_project:
  "Fl_dart_project_new \<in> set (emitted s (my_application_activate b d s))"
  unfolding my_application_activate_def
  by ((rule emitted_Let emitted_here | rule emitted_later emitted_if emitted_case |
       rule only_emits_Let only_emits_if only_emits_case only_emits_emit only_emits_refl |
       simp add: setenv_calls_def map_filter_def)+)

text \<open>The startup hook: the events of the configurator, then the call of the parent.\<close>

lemma configure_trace_prefix:
  "trace (configure_mesa_rendering b d s) = trace s @ emitted s (configure_mesa_rendering b d s)"
  by (cases "is_mesa_software_rendering (environ s)")
     (simp_all add: emitted_def configure_trace, simp add: configure_mesa_rendering_def)

lemma startup_trace:
  "trace (my_application_startup b d s) =
     trace s @ emitted s (configure_mesa_rendering b d s) @ [Parent_startup]"
  unfolding my_application_startup_def Let_def emit_simps
  using configure_trace_prefix [of b d s] by simp

lemma startup_emitted:
  "emitted s (my_application_startup b d s) =
     emitted s (configure_mesa_rendering b d s) @ [Parent_startup]"
  by (rule emitted_append) (rule startup_trace)

lemma startup_environ:
  "environ (my_application_startup b d s) = environ (configure_mesa_rendering b d s)"
  by (simp add: my_application_startup_def emit_def Let_def)

lemma configure_no_engine:
  "Parent_startup \<notin> set (emitted s (configure_mesa_rendering b d s))"
  "Fl_dart_project_new \<notin> set (emitted s (configure_mesa_rendering b d s))"
  "Fl_view_new \<notin> set (emitted s (configure_mesa_rendering b d s))"
  unfolding configure_emitted by (auto simp: workaround_variables_def)

text \<open>A launch, for both outcomes of the registration.\<close>

lemma launch_registered:
  "launch b d d' Registered (prog # rest) s =
     Inr (0, my_application_activate b d'
       ((my_application_startup b d s)
         \<lparr>heap := heap (my_application_startup b d s) @ [Some rest],
          self := (self (my_application_startup b d s))
            \<lparr>dart_entrypoint_arguments := Some (length (heap (my_application_startup b d s)))\<rparr>,
          trace := trace (my_application_startup b d s) @
            [G_application_register, G_application_activate]\<rparr>))"
  unfolding launch_def Let_def local_command_line_registered
  by (simp add: emitted_def)

lemma launch_register_failed:
  "launch b d d' (Register_failed message) (prog # rest) s =
     Inr (1, (my_application_startup b d s)
         \<lparr>heap := heap (my_application_startup b d s) @ [Some rest],
          self := (self (my_application_startup b d s))
            \<lparr>dart_entrypoint_arguments := Some (length (heap (my_application_startup b d s)))\<rparr>,
          trace := trace (my_application_startup b d s) @
            [G_application_register, G_warning (''Failed to register: '' @ message)]\<rparr>)"
  unfolding launch_def Let_def local_command_line_failed
  by (simp add: emitted_def)

text \<open>
  C8. In \<open>my_application_startup\<close> the configurator runs first and the startup of the
  parent class is called strictly after it: the hook adds the events of the configurator
  and then the one call of the parent, which finds the environment as the configurator
  left it; all \<open>setenv\<close> calls of the hook are those of the configurator, and the hook
  itself creates neither the Dart project nor the Flutter view. So in a launch (startup
  hook, command-line hook, activate hook) all environment writes of the configurator
  happen before the engine is initialised: the trace of the launch is the trace before
  it, then the events of the startup hook, then events among which there is no \<open>setenv\<close>
  call and among which the Dart project and the Flutter view are created, and the
  environment at the end is still the one the configurator left.
\<close>

theorem my_application_startup_order:
  "emitted s (my_application_startup b d s) =
     emitted s (configure_mesa_rendering b d s) @ [Parent_startup] \<and>
   Parent_startup \<notin> set (emitted s (configure_mesa_rendering b d s)) \<and>
   environ (my_application_startup b d s) = environ (configure_mesa_rendering b d s) \<and>
   setenv_calls (emitted s (my_application_startup b d s)) =
     setenv_calls (emitted s (configure_mesa_rendering b d s)) \<and>
   Fl_dart_project_new \<notin> set (emitted s (my_application_startup b d s)) \<and>
   Fl_view_new \<notin> set (emitted s (my_application_startup b d s)) \<and>
   (\<exists>exit_status s' later.
      launch b d d' Registered (prog # rest) s = Inr (exit_status, s') \<and>
      trace s' = trace s @ emitted s (my_application_startup b d s) @ later \<and>
      setenv_calls later = [] \<and>
      Fl_dart_project_new \<in> set later \<and> Fl_view_new \<in> set later \<and>
      environ s' = environ (configure_mesa_rendering b d s))"
proof -
  let ?s1 = "my_application_startup b d s"
  let ?s2 = "?s1\<lparr>heap := heap ?s1 @ [Some rest],
      self := (self ?s1)\<lparr>dart_entrypoint_arguments := Some (length (heap ?s1))\<rparr>,
      trace := trace ?s1 @ [G_application_register, G_application_activate]\<rparr>"
  let ?s3 = "my_application_activate b d' ?s2"
  let ?later = "[G_application_register, G_application_activate] @ emitted ?s2 ?s3"
  have run: "launch b d d' Registered (prog # rest) s = Inr (0, ?s3)"
    by (rule launch_registered)
  have quiet: "only_emits ?s2 ?s3"
    by (rule activate_only_emits)
  have t1: "trace ?s1 = trace s @ emitted s ?s1"
    by (simp add: startup_trace startup_emitted)
  have t3: "trace ?s3 = trace s @ emitted s ?s1 @ ?later"
    using only_emits_trace [OF quiet] t1 by simp
  have calls1: "setenv_calls (emitted s ?s1) =
      setenv_calls (emitted s (configure_mesa_rendering b d s))"
    by (simp add: startup_emitted setenv_calls_simps)
  have "setenv_calls (emitted ?s2 ?s3) = []"
    using quiet by (simp only: only_emits_def)
  then have calls3: "setenv_calls ?later = []"
    by (simp add: setenv_calls_def map_filter_def)
  have project: "Fl_dart_project_new \<in> set ?later"
    using activate_creates_project [of ?s2 b d'] by simp
  have view: "Fl_view_new \<in> set ?later"
    using activate_creates_view [of ?s2 b d'] by simp
  have "environ ?s3 = environ ?s2"
    using quiet by (simp only: only_emits_def)
  then have env: "environ ?s3 = environ (configure_mesa_rendering b d s)"
    by (simp add: startup_environ)
  have later: "\<exists>exit_status s' later.
      launch b d d' Registered (prog # rest) s = Inr (exit_status, s') \<and>
      trace s' = trace s @ emitted s ?s1 @ later \<and>
      setenv_calls later = [] \<and>
      Fl_dart_project_new \<in> set later \<and> Fl_view_new \<in> set later \<and>
      environ s' = environ (configure_mesa_rendering b d s)"
    using run t3 calls3 project view env
    by (intro exI [of _ 0] exI [of _ ?s3] exI [of _ ?later] conjI)
  have no_engine: "Fl_dart_project_new \<notin> set (emitted s ?s1)" "Fl_view_new \<notin> set (emitted s ?s1)"
    by (simp_all add: startup_emitted configure_no_engine)
  show ?thesis
    using startup_emitted [of s b d] configure_no_engine(1) [of s b d] startup_environ [of b d s]
      calls1 no_engine later
    by (intro conjI)
qed

theorem my_application_startup_order_witness:
  "\<exists>s' later.
     launch both_backends xfce_desktop xfce_desktop Registered [''bizsync''] software_state =
       Inr (0, s') \<and>
     trace s' =
       map (\<lambda>(name, val). Setenv name val 1) workaround_variables @
       [Setenv ''GDK_BACKEND'' ''x11'' 1] @
       map (\<lambda>line. G_print (line @ [CHR 0x0A]))
         [''BizSync: Mesa software rendering detected, applying comprehensive workarounds'',
          ''  - Disabled vsync (vblank_mode=0)'',
          ''  - Disabled DRI3 (LIBGL_DRI3_DISABLE=1)'',
          ''  - Disabled GLSL cache'',
          ''  - Single-threaded rendering (LP_NUM_THREADS=1)'',
          ''  - Synchronous flushing enabled''] @
       [Parent_startup] @ later \<and>
     setenv_calls later = [] \<and> Fl_view_new \<in> set later"
proof -
  have t: "trace software_state = []"
    by (simp add: software_state_def)
  from my_application_startup_order
    [of software_state both_backends xfce_desktop xfce_desktop "''bizsync''" "[]"]
  obtain exit_status s' later where
    r: "launch both_backends xfce_desktop xfce_desktop Registered [''bizsync''] software_state =
          Inr (exit_status, s')"
    and tr: "trace s' = trace software_state @
          emitted software_state (my_application_startup both_backends xfce_desktop software_state) @
          later"
    and st: "emitted software_state (my_application_startup both_backends xfce_desktop software_state) =
          emitted software_state (configure_mesa_rendering both_backends xfce_desktop software_state) @
          [Parent_startup]"
    and l: "setenv_calls later = []" "Fl_view_new \<in> set later"
    by blast
  have z: "exit_status = 0"
    using r by (simp add: launch_registered)
  show ?thesis
    using r tr l
    unfolding z st t configure_emitted
    by (simp add: software_state_detected software_state_forced)
qed

end
